theory Spec2Isabelle
  imports Main "HOL-Library.Word" "HOL-Library.Signed_Division"
begin

unbundle bit_operations_syntax

section \<open>Machine types of the target\<close>

text \<open>
  The sketch is built for the ESP32 (the pin comments name its VP/VN pins and the VSPI bus),
  where \<open>int\<close>, \<open>long\<close> and \<open>unsigned long\<close> are 32 bits wide. Signed values are words read
  through \<open>sint\<close>; signed comparison is \<open><s\<close>.
\<close>

type_synonym int16_t = "16 word"
type_synonym uint8_t = "8 word"
type_synonym c_int = "32 word"
type_synonym c_long = "32 word"
type_synonym c_ulong = "32 word"

section \<open>Pin definitions\<close>

definition PIN_JOY_YAW :: nat where "PIN_JOY_YAW = 35"
definition PIN_JOY_THR :: nat where "PIN_JOY_THR = 34"
definition PIN_JOY_ROLL :: nat where "PIN_JOY_ROLL = 33"
definition PIN_JOY_PITCH :: nat where "PIN_JOY_PITCH = 32"
definition PIN_KNOB_PITCH :: nat where "PIN_KNOB_PITCH = 36"
definition PIN_KNOB_ROLL :: nat where "PIN_KNOB_ROLL = 39"
definition PIN_BTN_UP :: nat where "PIN_BTN_UP = 13"
definition PIN_BTN_DOWN :: nat where "PIN_BTN_DOWN = 12"
definition PIN_BTN_ARM :: nat where "PIN_BTN_ARM = 17"
definition PIN_BTN_DISARM :: nat where "PIN_BTN_DISARM = 16"
definition PIN_BATTERY :: nat where "PIN_BATTERY = 25"

definition LOW :: c_int where "LOW = 0"
definition HIGH :: c_int where "HIGH = 1"

section \<open>Data structures\<close>

text \<open>The control packet \<open>RC_Input_t\<close>, field for field.\<close>

record RC_Input_t =
  throttle :: int16_t
  roll :: int16_t
  pitch :: int16_t
  yaw :: int16_t
  knob_pitch :: int16_t
  knob_roll :: int16_t
  buttons :: uint8_t

text \<open>
  The globals of the sketch and the function-local static \<open>last_ui_time\<close> of \<open>loop\<close>:
  everything that survives from one iteration to the next.
\<close>

record loop_state =
  packet :: RC_Input_t
  last_tx_time :: c_ulong
  local_armed_state :: bool
  last_ui_time :: c_ulong

text \<open>
  What the hardware answers during one iteration. \<open>analogRead\<close> and \<open>digitalRead\<close> give the
  reading of each pin; every pin is read at most once per iteration. \<open>millis()\<close> is called
  at four places of \<open>loop\<close>, and the clock may advance between them (the transmit waits for
  the radio), so each call site has its own reading. The battery percentage is computed by
  \<open>drawDashboard\<close> in floating point from \<open>analogRead(PIN_BATTERY)\<close>; binary floating-point
  arithmetic is not modelled here, so \<open>bat_pct_cast\<close> stands for the value of
  \<open>(int) ((gs_volt - 3.3) / (4.2 - 3.3) * 100.0)\<close> before it is constrained.
\<close>

record env =
  analogRead :: "nat \<Rightarrow> c_int"
  digitalRead :: "nat \<Rightarrow> c_int"
  millis_tx_check :: c_ulong
  millis_tx_stamp :: c_ulong
  millis_ui_check :: c_ulong
  millis_ui_stamp :: c_ulong
  bat_pct_cast :: c_int

text \<open>What one call of \<open>drawDashboard\<close> puts on the display.\<close>

record dashboard =
  shown_bat_pct :: c_int
  shown_armed :: bool
  shown_throttle :: int16_t
  shown_roll :: int16_t
  shown_pitch :: int16_t

text \<open>
  The calls to the two collaborators. \<open>Transmit p\<close> is
  \<open>LT.transmit((uint8_t* )&packet, sizeof(packet), 0, TX_POWER, WAIT_TX)\<close> with the struct
  holding \<open>p\<close>: the bytes handed to the radio are the object representation of \<open>p\<close>.
  \<open>Draw d\<close> is one full redraw ending in \<open>display.display()\<close>.
\<close>

datatype event = Transmit RC_Input_t | Draw dashboard

section \<open>Helper functions\<close>

text \<open>
  Modelled from the spec: the Arduino core's \<open>map()\<close> is called by \<open>readChannel\<close> but is not
  part of the repository. The spec's "linearly remap it onto [MIN_UNIT, MAX_UNIT]" is taken as
  the core's documented formula
  \<open>(x - in_min) * (out_max - out_min) / (in_max - in_min) + out_min\<close> on \<open>long\<close>: the
  arithmetic wraps at 32 bits and the division truncates towards zero, as C's does. For the
  readings the converter can deliver (0..4095, and any 16-bit value) the product stays far
  below \<open>2^31\<close>; beyond that C leaves the overflow undefined and the model wraps.
\<close>

definition map_long :: "c_long \<Rightarrow> c_long \<Rightarrow> c_long \<Rightarrow> c_long \<Rightarrow> c_long \<Rightarrow> c_long" where
  "map_long x in_min in_max out_min out_max =
     word_of_int (sint ((x - in_min) * (out_max - out_min)) sdiv sint (in_max - in_min)) + out_min"

text \<open>
  \<open>readChannel\<close>, with the value of \<open>analogRead(pin)\<close> as its first argument. The result of
  \<open>map\<close> is narrowed to \<open>int16_t\<close> (the low 16 bits), constrained by the two comparisons, and
  \<open>3000 - val\<close> is computed in \<open>int\<close> and narrowed again on return.
\<close>

definition readChannel :: "c_int \<Rightarrow> bool \<Rightarrow> int16_t" where
  "readChannel raw invert =
     (let val0 = (ucast (map_long raw 0 4095 1000 2000) :: int16_t);
          val1 = (if val0 <s 1000 then 1000 else val0);
          val2 = (if 2000 <s val1 then 2000 else val1)
      in if invert then ucast ((3000 :: c_int) - scast val2) else val2)"

text \<open>\<open>drawDashboard\<close>: the percentage is constrained to 0..100, then the frame is drawn.\<close>

definition drawDashboard :: "env \<Rightarrow> loop_state \<Rightarrow> dashboard" where
  "drawDashboard e s =
     (let bat_pct0 = bat_pct_cast e;
          bat_pct1 = (if 100 <s bat_pct0 then 100 else bat_pct0);
          bat_pct2 = (if bat_pct1 <s 0 then 0 else bat_pct1)
      in \<lparr> shown_bat_pct = bat_pct2,
           shown_armed = local_armed_state s,
           shown_throttle = throttle (packet s),
           shown_roll = roll (packet s),
           shown_pitch = pitch (packet s) \<rparr>)"

section \<open>Main loop\<close>

text \<open>
  \<open>loop()\<close> is modelled section by section, along its own comments. Section 1, "READ
  INPUTS": the six channels in the order of the assignments, then the button bitmask,
  cleared and ORed together from the four active-low pins.
\<close>

definition read_inputs :: "env \<Rightarrow> RC_Input_t \<Rightarrow> RC_Input_t" where
  "read_inputs e p =
     (let p1 = p\<lparr> yaw := readChannel (analogRead e PIN_JOY_YAW) False \<rparr>;
          p2 = p1\<lparr> throttle := readChannel (analogRead e PIN_JOY_THR) False \<rparr>;
          p3 = p2\<lparr> roll := readChannel (analogRead e PIN_JOY_ROLL) False \<rparr>;
          p4 = p3\<lparr> pitch := readChannel (analogRead e PIN_JOY_PITCH) False \<rparr>;
          p5 = p4\<lparr> knob_pitch := readChannel (analogRead e PIN_KNOB_PITCH) False \<rparr>;
          p6 = p5\<lparr> knob_roll := readChannel (analogRead e PIN_KNOB_ROLL) False \<rparr>;
          b0 = p6\<lparr> buttons := 0 \<rparr>;
          b1 = (if digitalRead e PIN_BTN_UP = LOW
                then b0\<lparr> buttons := buttons b0 OR 0x01 \<rparr> else b0);
          b2 = (if digitalRead e PIN_BTN_DOWN = LOW
                then b1\<lparr> buttons := buttons b1 OR 0x02 \<rparr> else b1);
          b3 = (if digitalRead e PIN_BTN_ARM = LOW
                then b2\<lparr> buttons := buttons b2 OR 0x04 \<rparr> else b2);
          b4 = (if digitalRead e PIN_BTN_DISARM = LOW
                then b3\<lparr> buttons := buttons b3 OR 0x08 \<rparr> else b3)
      in b4)"

text \<open>"Update Local Status for Display": the arm test first, the disarm test second.\<close>

definition update_local_status :: "loop_state \<Rightarrow> loop_state" where
  "update_local_status s =
     (let s1 = (if buttons (packet s) AND 0x04 \<noteq> 0 then s\<lparr> local_armed_state := True \<rparr> else s);
          s2 = (if buttons (packet s1) AND 0x08 \<noteq> 0 then s1\<lparr> local_armed_state := False \<rparr> else s1)
      in s2)"

text \<open>Section 2, "TRANSMIT CYCLE": the unsigned difference is compared with \<open>>\<close>.\<close>

definition transmit_cycle :: "env \<Rightarrow> loop_state \<Rightarrow> loop_state \<times> event list" where
  "transmit_cycle e s =
     (if millis_tx_check e - last_tx_time s > 20
      then (s\<lparr> last_tx_time := millis_tx_stamp e \<rparr>, [Transmit (packet s)])
      else (s, []))"

text \<open>Section 3, "UPDATE DISPLAY".\<close>

definition update_display :: "env \<Rightarrow> loop_state \<Rightarrow> loop_state \<times> event list" where
  "update_display e s =
     (if millis_ui_check e - last_ui_time s > 100
      then (s\<lparr> last_ui_time := millis_ui_stamp e \<rparr>, [Draw (drawDashboard e s)])
      else (s, []))"

text \<open>
  One call of \<open>loop()\<close>: the state after it and the collaborator calls it made, in order.
\<close>

definition loop :: "env \<Rightarrow> loop_state \<Rightarrow> loop_state \<times> event list" where
  "loop e s =
     (let s1 = s\<lparr> packet := read_inputs e (packet s) \<rparr>;
          s2 = update_local_status s1;
          (s3, tx) = transmit_cycle e s2;
          (s4, ui) = update_display e s3
      in (s4, tx @ ui))"

text \<open>The state at power-up: the globals are zero-initialised, the flag is \<open>false\<close>.\<close>

definition init_state :: loop_state where
  "init_state =
     \<lparr> packet = \<lparr> throttle = 0, roll = 0, pitch = 0, yaw = 0, knob_pitch = 0, knob_roll = 0,
                   buttons = 0 \<rparr>,
       last_tx_time = 0, local_armed_state = False, last_ui_time = 0 \<rparr>"

text \<open>Iterations of \<open>loop()\<close> from a state, one per element of the list, oldest first.\<close>

fun run :: "loop_state \<Rightarrow> env list \<Rightarrow> loop_state" where
  "run s [] = s"
| "run s (e # es) = run (fst (loop e s)) es"

text \<open>The events of one iteration, by collaborator.\<close>

fun is_transmit :: "event \<Rightarrow> bool" where
  "is_transmit (Transmit p) = True"
| "is_transmit (Draw d) = False"

fun is_draw :: "event \<Rightarrow> bool" where
  "is_draw (Transmit p) = False"
| "is_draw (Draw d) = True"

definition transmitted :: "env \<Rightarrow> loop_state \<Rightarrow> event list" where
  "transmitted e s = filter is_transmit (snd (loop e s))"

definition drawn :: "env \<Rightarrow> loop_state \<Rightarrow> event list" where
  "drawn e s = filter is_draw (snd (loop e s))"

text \<open>
  The flag and the button bitmask after a run from power-up. After an empty run the bitmask
  is the zero the global starts with: no button has been seen asserted.
\<close>

definition armed_after :: "env list \<Rightarrow> bool" where
  "armed_after es = local_armed_state (run init_state es)"

definition mask_after :: "env list \<Rightarrow> uint8_t" where
  "mask_after es = buttons (packet (run init_state es))"

section \<open>Concrete hardware readings\<close>

text \<open>
  Readings at which the theorems below are evaluated: nothing pressed and the clock at 0,
  a given list of button pins held down (the buttons are active low), the clock at a given
  time.
\<close>

definition env_idle :: env where
  "env_idle =
     \<lparr> analogRead = (\<lambda>pin. 0), digitalRead = (\<lambda>pin. HIGH),
       millis_tx_check = 0, millis_tx_stamp = 0, millis_ui_check = 0, millis_ui_stamp = 0,
       bat_pct_cast = 0 \<rparr>"

definition env_pressed :: "nat list \<Rightarrow> env" where
  "env_pressed pins = env_idle\<lparr> digitalRead := (\<lambda>pin. if pin \<in> set pins then LOW else HIGH) \<rparr>"

definition env_at :: "c_ulong \<Rightarrow> env" where
  "env_at t =
     env_idle\<lparr> millis_tx_check := t, millis_tx_stamp := t, millis_ui_check := t,
               millis_ui_stamp := t \<rparr>"

section \<open>The input sampler\<close>

text \<open>
  Once the value is between 1000 and 2000, the subtraction from 3000 in \<open>int\<close> and the
  narrowing back to 16 bits lose nothing.
\<close>

lemma mirror_in_range:
  fixes v :: int16_t
  assumes "1000 \<le> sint v" "sint v \<le> 2000"
  shows "sint (ucast ((3000 :: c_int) - scast v) :: int16_t) = 3000 - sint v"
proof -
  have a: "(scast v :: c_int) = word_of_int (sint v)"
    by (fact scast_eq)
  have b: "(3000 :: c_int) - word_of_int (sint v) = word_of_int (3000 - sint v)"
    by simp
  have c: "uint (word_of_int (3000 - sint v) :: c_int) = 3000 - sint v"
    unfolding uint_word_of_int take_bit_eq_mod using assms by simp
  have d: "(ucast (word_of_int (3000 - sint v) :: c_int) :: int16_t) = word_of_int (3000 - sint v)"
    by (subst ucast_eq) (simp only: c)
  have e: "sint (word_of_int (3000 - sint v) :: int16_t) = 3000 - sint v"
    unfolding int_word_sint using assms by simp
  show ?thesis
    by (simp only: a b d e)
qed

lemma constrained_range:
  fixes val0 :: int16_t
  assumes "val1 = (if val0 <s 1000 then 1000 else val0)"
    and "val2 = (if 2000 <s val1 then 2000 else val1)"
  shows "1000 \<le> sint val2 \<and> sint val2 \<le> 2000"
  using assms by (simp add: word_sless_alt)

text \<open>
  Whatever \<open>map\<close> returned, \<open>readChannel\<close> answers with a constrained value or its mirror
  image.
\<close>

lemma readChannel_cases:
  "\<exists>val2. 1000 \<le> sint val2 \<and> sint val2 \<le> 2000 \<and>
     (\<forall>invert. readChannel raw invert =
        (if invert then ucast ((3000 :: c_int) - scast val2) else val2))"
proof -
  define val0 :: int16_t where "val0 = ucast (map_long raw 0 4095 1000 2000)"
  define val1 where "val1 = (if val0 <s 1000 then 1000 else val0)"
  define val2 where "val2 = (if 2000 <s val1 then 2000 else val1)"
  have "1000 \<le> sint val2 \<and> sint val2 \<le> 2000"
    using val1_def val2_def by (rule constrained_range)
  moreover have "readChannel raw invert =
      (if invert then ucast ((3000 :: c_int) - scast val2) else val2)" for invert
    by (simp only: readChannel_def Let_def val0_def val1_def val2_def)
  ultimately show ?thesis by blast
qed

text \<open>
  Claim C3. For every raw reading, any 32-bit value of \<open>int raw\<close> and so also those outside
  0..4095, and for both values of the inversion flag, the value returned by \<open>readChannel\<close>
  lies between 1000 and 2000 inclusive.
\<close>

theorem readChannel_range:
  "1000 \<le> sint (readChannel raw invert) \<and> sint (readChannel raw invert) \<le> 2000"
proof -
  obtain val2 where r: "1000 \<le> sint val2" "sint val2 \<le> 2000"
    and rc: "\<And>invert. readChannel raw invert =
      (if invert then ucast ((3000 :: c_int) - scast val2) else val2)"
    using readChannel_cases [of raw] by blast
  show ?thesis
  proof (cases invert)
    case True
    then have "sint (readChannel raw invert) = 3000 - sint val2"
      using mirror_in_range [OF r] by (simp only: rc if_True)
    then show ?thesis using r by simp
  next
    case False
    then show ?thesis using r by (simp only: rc if_False simp_thms)
  qed
qed

text \<open>
  Claim C4. For every raw input \<open>x\<close>, the output of \<open>readChannel\<close> with the inversion flag set
  is 3000 minus its output with the flag clear on the same \<open>x\<close>, as integers.
\<close>

theorem readChannel_mirror:
  "sint (readChannel x True) = 3000 - sint (readChannel x False)"
proof -
  obtain val2 where r: "1000 \<le> sint val2" "sint val2 \<le> 2000"
    and rc: "\<And>invert. readChannel x invert =
      (if invert then ucast ((3000 :: c_int) - scast val2) else val2)"
    using readChannel_cases [of x] by blast
  show ?thesis
    using mirror_in_range [OF r] by (simp only: rc if_True if_False)
qed

text \<open>
  Claim C9. Not inverted, \<open>readChannel\<close> maps raw 0 to 1000, raw 4095 to 2000 and raw 2048
  to 1500 (2048000 / 4095 truncates to 500); inverted, it maps raw 0 to 2000 and raw 4095
  to 1000.
\<close>

theorem readChannel_scenarios:
  "sint (readChannel 0 False) = 1000 \<and> sint (readChannel 4095 False) = 2000 \<and>
   sint (readChannel 2048 False) = 1500 \<and>
   sint (readChannel 0 True) = 2000 \<and> sint (readChannel 4095 True) = 1000"
  by (simp add: readChannel_def map_long_def signed_divide_int_def)

section \<open>The sections of the loop\<close>

lemma read_inputs_buttons:
  "buttons (read_inputs e p) =
     (if digitalRead e PIN_BTN_UP = LOW then 1 else 0) OR
     (if digitalRead e PIN_BTN_DOWN = LOW then 2 else 0) OR
     (if digitalRead e PIN_BTN_ARM = LOW then 4 else 0) OR
     (if digitalRead e PIN_BTN_DISARM = LOW then 8 else 0)"
  by (simp add: read_inputs_def Let_def)

lemma read_inputs_bit2:
  "bit (buttons (read_inputs e p)) 2 \<longleftrightarrow> digitalRead e PIN_BTN_ARM = LOW"
  by (simp add: read_inputs_buttons bit_or_iff)

lemma read_inputs_bit3:
  "bit (buttons (read_inputs e p)) 3 \<longleftrightarrow> digitalRead e PIN_BTN_DISARM = LOW"
  by (simp add: read_inputs_buttons bit_or_iff)

lemma and4_bit2: "(b :: uint8_t) AND 0x04 \<noteq> 0 \<longleftrightarrow> bit b 2"
  using and_exp_eq_0_iff_not_bit [of b 2] by simp

lemma and8_bit3: "(b :: uint8_t) AND 0x08 \<noteq> 0 \<longleftrightarrow> bit b 3"
  using and_exp_eq_0_iff_not_bit [of b 3] by simp

lemma update_local_status_armed:
  "local_armed_state (update_local_status s) =
     (if bit (buttons (packet s)) 3 then False
      else if bit (buttons (packet s)) 2 then True else local_armed_state s)"
  by (simp add: update_local_status_def Let_def and4_bit2 and8_bit3)

lemma update_local_status_other:
  "packet (update_local_status s) = packet s"
  "last_tx_time (update_local_status s) = last_tx_time s"
  "last_ui_time (update_local_status s) = last_ui_time s"
  by (simp_all add: update_local_status_def Let_def)

lemma transmit_cycle_fst:
  "local_armed_state (fst (transmit_cycle e s)) = local_armed_state s"
  "packet (fst (transmit_cycle e s)) = packet s"
  "last_ui_time (fst (transmit_cycle e s)) = last_ui_time s"
  by (simp_all add: transmit_cycle_def)

lemma transmit_cycle_snd:
  "snd (transmit_cycle e s) =
     (if millis_tx_check e - last_tx_time s > 20 then [Transmit (packet s)] else [])"
  by (simp add: transmit_cycle_def)

lemma update_display_fst:
  "local_armed_state (fst (update_display e s)) = local_armed_state s"
  "packet (fst (update_display e s)) = packet s"
  by (simp_all add: update_display_def)

lemma update_display_snd:
  "snd (update_display e s) =
     (if millis_ui_check e - last_ui_time s > 100 then [Draw (drawDashboard e s)] else [])"
  by (simp add: update_display_def)

lemma loop_fst:
  "fst (loop e s) =
     fst (update_display e (fst (transmit_cycle e
       (update_local_status (s\<lparr> packet := read_inputs e (packet s) \<rparr>)))))"
  by (simp add: loop_def Let_def split: prod.splits)

lemma loop_snd:
  "snd (loop e s) =
     snd (transmit_cycle e (update_local_status (s\<lparr> packet := read_inputs e (packet s) \<rparr>))) @
     snd (update_display e (fst (transmit_cycle e
       (update_local_status (s\<lparr> packet := read_inputs e (packet s) \<rparr>)))))"
  by (simp add: loop_def Let_def split: prod.splits)

lemma loop_packet: "packet (fst (loop e s)) = read_inputs e (packet s)"
  by (simp add: loop_fst update_display_fst transmit_cycle_fst update_local_status_other)

text \<open>The flag after an iteration, from the bitmask sampled in it.\<close>

lemma loop_armed:
  "local_armed_state (fst (loop e s)) =
     (if bit (buttons (packet (fst (loop e s)))) 3 then False
      else if bit (buttons (packet (fst (loop e s)))) 2 then True else local_armed_state s)"
  by (simp add: loop_packet)
     (simp add: loop_fst update_display_fst transmit_cycle_fst update_local_status_armed)

text \<open>The radio calls of an iteration, and the number of redraws.\<close>

lemma transmitted_eq:
  "transmitted e s =
     (if millis_tx_check e - last_tx_time s > 20 then [Transmit (read_inputs e (packet s))]
      else [])"
  by (simp add: transmitted_def loop_snd transmit_cycle_snd update_display_snd
      update_local_status_other)

lemma length_drawn:
  "length (drawn e s) = (if millis_ui_check e - last_ui_time s > 100 then 1 else 0)"
  by (simp add: drawn_def loop_snd transmit_cycle_snd update_display_snd
      update_local_status_other transmit_cycle_fst)

text \<open>
  The percentage shown is within 0..100 whatever the floating-point expression gave.
\<close>

lemma drawDashboard_bat_pct_range:
  "0 \<le> sint (shown_bat_pct (drawDashboard e s)) \<and> sint (shown_bat_pct (drawDashboard e s)) \<le> 100"
  by (simp add: drawDashboard_def Let_def word_sless_alt)

section \<open>The two schedulers\<close>

text \<open>
  Claim C1, as the code has it. In every call of \<open>loop\<close> the transmit scheduler fires zero
  times when the elapsed time \<open>millis() - last_tx_time\<close> (unsigned, 32 bits) is at most 20
  and exactly once when it is strictly greater than 20, however far past; the display
  scheduler does the same with 100 and \<open>last_ui_time\<close>.
\<close>

theorem schedulers_fire_when_exceeded:
  "length (transmitted e s) = (if millis_tx_check e - last_tx_time s > 20 then 1 else 0) \<and>
   length (drawn e s) = (if millis_ui_check e - last_ui_time s > 100 then 1 else 0)"
  by (simp add: transmitted_eq length_drawn)

text \<open>
  Claim C1, as stated, asks for one firing as soon as the elapsed time reaches the
  threshold. At an elapsed time of exactly 20 the radio is not called, and at exactly 100
  the display is not redrawn.
\<close>

theorem schedulers_at_threshold_counterexample:
  "20 \<le> millis_tx_check (env_at 20) - last_tx_time init_state \<and>
   length (transmitted (env_at 20) init_state) = 0 \<and>
   100 \<le> millis_ui_check (env_at 100) - last_ui_time init_state \<and>
   length (drawn (env_at 100) init_state) = 0"
  by (simp add: transmitted_eq length_drawn env_at_def env_idle_def init_state_def)

text \<open>
  Claim C6. In every single iteration the radio transmit operation is invoked at most once,
  no matter how many transmit intervals have elapsed.
\<close>

theorem transmit_at_most_once:
  "length (transmitted e s) \<le> 1"
  by (simp add: transmitted_eq)

text \<open>
  Claim C7. Two iterations that start from states differing only in \<open>local_armed_state\<close> and
  see the same readings hand the same packets to the radio, button bitmask included.
\<close>

theorem transmitted_independent_of_armed:
  "transmitted e (s\<lparr> local_armed_state := b \<rparr>) = transmitted e s"
  by (simp add: transmitted_eq)

section \<open>The armed flag\<close>

text \<open>
  Claim C10. In every iteration where the arm bit (bit 2) and the disarm bit (bit 3) of the
  sampled bitmask are both asserted, the flag is false at the end of the iteration.
\<close>

theorem disarm_takes_precedence:
  "bit (buttons (packet (fst (loop e s)))) 2 \<and> bit (buttons (packet (fst (loop e s)))) 3
   \<Longrightarrow> \<not> local_armed_state (fst (loop e s))"
  by (subst loop_armed) simp

lemma env_pressed_digitalRead:
  "digitalRead (env_pressed pins) pin = (if pin \<in> set pins then LOW else HIGH)"
  by (simp add: env_pressed_def)

text \<open>
  Claim C10 at both buttons held down, starting with the flag set: both bits are asserted
  and the flag ends false.
\<close>

theorem disarm_takes_precedence_witness:
  "bit (buttons (packet (fst (loop (env_pressed [PIN_BTN_ARM, PIN_BTN_DISARM])
                                   (init_state\<lparr> local_armed_state := True \<rparr>))))) 2 \<and>
   bit (buttons (packet (fst (loop (env_pressed [PIN_BTN_ARM, PIN_BTN_DISARM])
                                   (init_state\<lparr> local_armed_state := True \<rparr>))))) 3 \<and>
   \<not> local_armed_state (fst (loop (env_pressed [PIN_BTN_ARM, PIN_BTN_DISARM])
                                   (init_state\<lparr> local_armed_state := True \<rparr>)))"
proof -
  have h: "bit (buttons (packet (fst (loop (env_pressed [PIN_BTN_ARM, PIN_BTN_DISARM])
                                   (init_state\<lparr> local_armed_state := True \<rparr>))))) 2 \<and>
   bit (buttons (packet (fst (loop (env_pressed [PIN_BTN_ARM, PIN_BTN_DISARM])
                                   (init_state\<lparr> local_armed_state := True \<rparr>))))) 3"
    by (simp add: loop_packet read_inputs_bit2 read_inputs_bit3 env_pressed_digitalRead)
  from disarm_takes_precedence [OF h] h show ?thesis by simp
qed

subsection \<open>Runs from power-up\<close>

lemma run_snoc: "run s (es @ [e]) = fst (loop e (run s es))"
  by (induction es arbitrary: s) simp_all

lemma armed_after_snoc:
  "armed_after (es @ [e]) =
     (if bit (mask_after (es @ [e])) 3 then False
      else if bit (mask_after (es @ [e])) 2 then True else armed_after es)"
  unfolding armed_after_def mask_after_def run_snoc by (rule loop_armed)

lemma after_Nil: "\<not> armed_after []" "mask_after [] = 0"
  by (simp_all add: armed_after_def mask_after_def init_state_def)

text \<open>
  After any run the flag agrees with the last bitmask: false if disarm was asserted, true
  if arm was asserted alone.
\<close>

lemma flag_follows_mask:
  "(bit (mask_after es) 3 \<longrightarrow> \<not> armed_after es) \<and>
   (bit (mask_after es) 2 \<and> \<not> bit (mask_after es) 3 \<longrightarrow> armed_after es)"
proof (cases es rule: rev_cases)
  case Nil
  then show ?thesis by (simp add: after_Nil)
next
  case (snoc es' e)
  show ?thesis unfolding snoc by (subst (1 2) armed_after_snoc) simp
qed

lemmas pin_defs =
  PIN_JOY_YAW_def PIN_JOY_THR_def PIN_JOY_ROLL_def PIN_JOY_PITCH_def
  PIN_KNOB_PITCH_def PIN_KNOB_ROLL_def PIN_BTN_UP_def PIN_BTN_DOWN_def
  PIN_BTN_ARM_def PIN_BTN_DISARM_def PIN_BATTERY_def LOW_def HIGH_def

lemmas eval_run =
  armed_after_def mask_after_def loop_armed loop_packet read_inputs_bit2
  read_inputs_bit3 env_pressed_digitalRead pin_defs init_state_def

text \<open>
  Claim C2, as the code has it. In a run of iterations from power-up, \<open>es\<close> then \<open>e\<close>: the
  flag changes to true only in an iteration whose bitmask has the arm bit (bit 2) asserted
  and the disarm bit (bit 3) clear, and where either the arm bit was not asserted in the
  previous iteration or the disarm bit was; it changes to false only in an iteration where
  the disarm bit goes from not asserted to asserted; and two iterations \<open>e\<close>, \<open>e'\<close> whose
  bitmasks agree on bits 2 and 3 leave the same flag, whatever the other bits are.
\<close>

theorem armed_state_level_triggered:
  "(\<not> armed_after es \<and> armed_after (es @ [e]) \<longrightarrow>
      bit (mask_after (es @ [e])) 2 \<and> \<not> bit (mask_after (es @ [e])) 3 \<and>
      (\<not> bit (mask_after es) 2 \<or> bit (mask_after es) 3)) \<and>
   (armed_after es \<and> \<not> armed_after (es @ [e]) \<longrightarrow>
      bit (mask_after (es @ [e])) 3 \<and> \<not> bit (mask_after es) 3) \<and>
   (bit (mask_after (es @ [e])) 2 = bit (mask_after (es @ [e'])) 2 \<and>
    bit (mask_after (es @ [e])) 3 = bit (mask_after (es @ [e'])) 3 \<longrightarrow>
      armed_after (es @ [e]) = armed_after (es @ [e']))"
proof -
  note step = armed_after_snoc [of es e] armed_after_snoc [of es e']
  note inv = flag_follows_mask [of es]
  have 1: "\<not> armed_after es \<and> armed_after (es @ [e]) \<longrightarrow>
      bit (mask_after (es @ [e])) 2 \<and> \<not> bit (mask_after (es @ [e])) 3 \<and>
      (\<not> bit (mask_after es) 2 \<or> bit (mask_after es) 3)"
    using step(1) inv by (auto split: if_splits)
  have 2: "armed_after es \<and> \<not> armed_after (es @ [e]) \<longrightarrow>
      bit (mask_after (es @ [e])) 3 \<and> \<not> bit (mask_after es) 3"
    using step(1) inv by (auto split: if_splits)
  have 3: "bit (mask_after (es @ [e])) 2 = bit (mask_after (es @ [e'])) 2 \<and>
    bit (mask_after (es @ [e])) 3 = bit (mask_after (es @ [e'])) 3 \<longrightarrow>
      armed_after (es @ [e]) = armed_after (es @ [e'])"
    using step by (auto split: if_splits)
  from 1 2 3 show ?thesis by blast
qed

text \<open>
  Claim C2, as stated, lets the flag become true only when the arm bit goes from not
  asserted to asserted. With arm and disarm both held in one iteration and disarm released
  in the next, the flag is false after the first and true after the second, while the arm
  bit was asserted in the first already.
\<close>

theorem armed_state_edge_counterexample:
  "\<not> armed_after [env_pressed [PIN_BTN_ARM, PIN_BTN_DISARM]] \<and>
   armed_after [env_pressed [PIN_BTN_ARM, PIN_BTN_DISARM], env_pressed [PIN_BTN_ARM]] \<and>
   bit (mask_after [env_pressed [PIN_BTN_ARM, PIN_BTN_DISARM]]) 2"
  by (simp add: eval_run)

text \<open>
  Claim C2, as the code has it, at concrete runs: arm pressed in the first iteration (the
  flag becomes true, with or without the up button), then disarm pressed in the second (the
  flag becomes false).
\<close>

theorem armed_state_level_triggered_witness:
  "(\<not> armed_after [] \<and> armed_after ([] @ [env_pressed [PIN_BTN_ARM]])) \<and>
   bit (mask_after ([] @ [env_pressed [PIN_BTN_ARM]])) 2 \<and>
   \<not> bit (mask_after ([] @ [env_pressed [PIN_BTN_ARM]])) 3 \<and>
   (armed_after [env_pressed [PIN_BTN_ARM]] \<and>
    \<not> armed_after ([env_pressed [PIN_BTN_ARM]] @ [env_pressed [PIN_BTN_DISARM]])) \<and>
   bit (mask_after ([env_pressed [PIN_BTN_ARM]] @ [env_pressed [PIN_BTN_DISARM]])) 3 \<and>
   \<not> bit (mask_after [env_pressed [PIN_BTN_ARM]]) 3 \<and>
   (bit (mask_after ([] @ [env_pressed [PIN_BTN_ARM]])) 2 =
      bit (mask_after ([] @ [env_pressed [PIN_BTN_UP, PIN_BTN_ARM]])) 2 \<and>
    bit (mask_after ([] @ [env_pressed [PIN_BTN_ARM]])) 3 =
      bit (mask_after ([] @ [env_pressed [PIN_BTN_UP, PIN_BTN_ARM]])) 3) \<and>
   armed_after ([] @ [env_pressed [PIN_BTN_ARM]]) =
     armed_after ([] @ [env_pressed [PIN_BTN_UP, PIN_BTN_ARM]])"
proof -
  have a1: "\<not> armed_after [] \<and> armed_after ([] @ [env_pressed [PIN_BTN_ARM]])"
    by (simp add: eval_run)
  have a2: "armed_after [env_pressed [PIN_BTN_ARM]] \<and>
    \<not> armed_after ([env_pressed [PIN_BTN_ARM]] @ [env_pressed [PIN_BTN_DISARM]])"
    by (simp add: eval_run)
  have a3: "bit (mask_after ([] @ [env_pressed [PIN_BTN_ARM]])) 2 =
      bit (mask_after ([] @ [env_pressed [PIN_BTN_UP, PIN_BTN_ARM]])) 2 \<and>
    bit (mask_after ([] @ [env_pressed [PIN_BTN_ARM]])) 3 =
      bit (mask_after ([] @ [env_pressed [PIN_BTN_UP, PIN_BTN_ARM]])) 3"
    by (simp add: eval_run)
  from a1 a2 a3
    armed_state_level_triggered [of "[]" "env_pressed [PIN_BTN_ARM]"
      "env_pressed [PIN_BTN_UP, PIN_BTN_ARM]"]
    armed_state_level_triggered [of "[env_pressed [PIN_BTN_ARM]]" "env_pressed [PIN_BTN_DISARM]"
      "env_pressed [PIN_BTN_DISARM]"]
  show ?thesis by blast
qed

end
